theory Spec2Isabelle
  imports Complex_Main
begin

section \<open>Module constants of webui.py\<close>

text \<open>
  The module-level names of \<^verbatim>\<open>webui.py\<close>. The two sample rates and the placeholder
  waveform are bound in the start-up block (\<^verbatim>\<open>prompt_sr, target_sr = 16000, 22050\<close> and
  \<^verbatim>\<open>default_data = np.zeros(target_sr)\<close>). Samples are floating-point numbers in the
  program; they are modelled as reals.
\<close>

definition inference_mode_list :: "string list" where
  "inference_mode_list =
     [''Pre-trained Voice'', ''3s Rapid Cloning'', ''Cross-lingual Cloning'',
      ''Natural Language Control'']"

definition max_val :: real where
  "max_val = 0.8"

definition prompt_sr :: nat where
  "prompt_sr = 16000"

definition target_sr :: nat where
  "target_sr = 22050"

definition default_data :: "real list" where
  "default_data = replicate target_sr 0"

text \<open>Exceptions the modelled code can end with.\<close>

datatype error =
    NoPath            \<comment> \<open>\<^verbatim>\<open>torchaudio.info\<close> or \<^verbatim>\<open>load_wav\<close> applied to \<^verbatim>\<open>None\<close>\<close>
  | AudioFileError    \<comment> \<open>\<^verbatim>\<open>torchaudio.info\<close> or \<^verbatim>\<open>load_wav\<close> fails on the file\<close>
  | EmptyReduction    \<comment> \<open>\<^verbatim>\<open>max()\<close> of a tensor without elements\<close>
  | EngineError string  \<comment> \<open>raised by the synthesis engine while it generates\<close>

section \<open>generate\_seed\<close>

text \<open>
  \<^verbatim>\<open>generate_seed\<close> draws \<^verbatim>\<open>random.randint(1, 100000000)\<close> and returns the dictionary
  \<^verbatim>\<open>{"__type__": "update", "value": seed}\<close>. The standard library's generator is a
  parameter: a function from the two bounds and the generator's state to the drawn integer and
  the next state. The dictionary is an association list in the source's key order.
\<close>

datatype pyval = PyStr string | PyInt int

type_synonym 'g randint = "int \<Rightarrow> int \<Rightarrow> 'g \<Rightarrow> int \<times> 'g"

definition generate_seed :: "'g randint \<Rightarrow> 'g \<Rightarrow> (string \<times> pyval) list \<times> 'g" where
  "generate_seed randint g =
     (let (seed, g') = randint 1 100000000 g
      in ([(''__type__'', PyStr ''update''), (''value'', PyInt seed)], g'))"

text \<open>The seed button pressed \<open>n\<close> times in a row: the generator state is threaded through.\<close>

fun generate_seeds :: "'g randint \<Rightarrow> nat \<Rightarrow> 'g \<Rightarrow> (string \<times> pyval) list list" where
  "generate_seeds randint 0 g = []"
| "generate_seeds randint (Suc n) g =
     (let (u, g') = generate_seed randint g in u # generate_seeds randint n g')"

text \<open>
  The documented contract of \<^verbatim>\<open>random.randint(a, b)\<close>: an integer \<open>N\<close> with
  \<open>a \<le> N \<le> b\<close>.
\<close>

definition randint_contract :: "'g randint \<Rightarrow> bool" where
  "randint_contract randint =
     (\<forall>a b g. a \<le> b \<longrightarrow> a \<le> fst (randint a b g) \<and> fst (randint a b g) \<le> b)"

text \<open>A concrete generator for evaluation: a counter folded into the requested interval.\<close>

definition counter_randint :: "nat randint" where
  "counter_randint a b g = (a + int g mod (b - a + 1), Suc g)"

section \<open>postprocess\<close>

text \<open>
  \<^verbatim>\<open>speech.abs().max()\<close>: the largest absolute sample. On a tensor without elements the
  reduction raises.
\<close>

fun abs_max :: "real list \<Rightarrow> error + real" where
  "abs_max [] = Inl EmptyReduction"
| "abs_max (x # xs) = Inr (fold (\<lambda>y m. max m \<bar>y\<bar>) xs \<bar>x\<bar>)"

text \<open>
  The peak absolute amplitude of a waveform, for stating the laws of the conditioner; the
  waveform without samples has peak \<open>0\<close>.
\<close>

definition peak :: "real list \<Rightarrow> real" where
  "peak xs = fold (\<lambda>y m. max m \<bar>y\<bar>) xs 0"

text \<open>
  \<^verbatim>\<open>librosa.effects.trim(speech, top_db, frame_length, hop_length)\<close> is a parameter: it
  returns the trimmed signal and the interval of the input it kept.
\<close>

type_synonym trim = "real list \<Rightarrow> nat \<Rightarrow> nat \<Rightarrow> nat \<Rightarrow> real list \<times> (nat \<times> nat)"

text \<open>\<^verbatim>\<open>int(target_sr * 0.2)\<close>, the number of zeros appended.\<close>

definition pad_len :: nat where
  "pad_len = nat \<lfloor>real target_sr * 0.2\<rfloor>"

text \<open>
  \<^verbatim>\<open>postprocess(speech, top_db=60, hop_length=220, win_length=440)\<close>. The waveform has
  shape \<open>(1, N)\<close>; the model keeps its single row. Lines 47--51 keep the first component of
  the trimmer's result, called with \<^verbatim>\<open>frame_length=win_length\<close>.
\<close>

definition trimmed :: "trim \<Rightarrow> real list \<Rightarrow> real list" where
  "trimmed trim speech = fst (trim speech 60 440 220)"

definition postprocess :: "trim \<Rightarrow> real list \<Rightarrow> error + real list" where
  "postprocess trim speech =
     (let speech1 = trimmed trim speech in
      case abs_max speech1 of
        Inl e \<Rightarrow> Inl e
      | Inr m \<Rightarrow>
          (let speech2 = (if m > max_val then map (\<lambda>x. x / m * max_val) speech1 else speech1)
           in Inr (speech2 @ replicate pad_len 0)))"

text \<open>A concrete trimmer for evaluation: it drops the zero samples at both ends.\<close>

definition zero_trim :: trim where
  "zero_trim speech top_db frame_length hop_length =
     (let k = length (takeWhile (\<lambda>x. x = 0) speech);
          kept = rev (dropWhile (\<lambda>x. x = 0) (rev (dropWhile (\<lambda>x. x = 0) speech)))
      in (kept, (k, k + length kept)))"

section \<open>generate\_audio\<close>

subsection \<open>Requests, the environment and the observable trace\<close>

text \<open>The ten arguments of \<^verbatim>\<open>generate_audio\<close>, as the interface passes them.\<close>

record request =
  tts_text :: string
  mode_checkbox_group :: string
  sft_dropdown :: string
  prompt_text :: string
  prompt_wav_upload :: "string option"
  prompt_wav_record :: "string option"
  instruct_text :: string
  seed :: int
  stream :: bool
  speed :: real

text \<open>
  A synthesis operation of the engine is a generator that reads and advances the process-wide
  random state \<open>'g\<close>: it produces its segments (\<^verbatim>\<open>i['tts_speech']\<close>, flattened) in order
  and either ends or raises after them.
\<close>

type_synonym 'g generation = "'g \<Rightarrow> (real list list \<times> error option) \<times> 'g"

text \<open>
  Everything \<^verbatim>\<open>generate_audio\<close> reads from outside its arguments: the command-line model
  directory, the loaded engine \<^verbatim>\<open>cosyvoice\<close> (its \<^verbatim>\<open>frontend.instruct\<close> flag and its four
  synthesis operations), \<^verbatim>\<open>set_all_random_seed\<close> (the random state it installs depends on
  the seed alone), \<^verbatim>\<open>torchaudio.info(path).sample_rate\<close> and \<^verbatim>\<open>load_wav\<close> (\<open>None\<close> when
  they raise on the file) and \<^verbatim>\<open>librosa.effects.trim\<close>.
\<close>

record 'g env =
  model_dir :: string
  instruct :: bool
  inference_sft :: "string \<Rightarrow> string \<Rightarrow> bool \<Rightarrow> real \<Rightarrow> 'g generation"
  inference_zero_shot :: "string \<Rightarrow> string \<Rightarrow> real list \<Rightarrow> bool \<Rightarrow> real \<Rightarrow> 'g generation"
  inference_cross_lingual :: "string \<Rightarrow> real list \<Rightarrow> bool \<Rightarrow> real \<Rightarrow> 'g generation"
  inference_instruct :: "string \<Rightarrow> string \<Rightarrow> string \<Rightarrow> bool \<Rightarrow> real \<Rightarrow> 'g generation"
  set_all_random_seed :: "int \<Rightarrow> 'g"
  sample_rate :: "string \<Rightarrow> nat option"
  load_wav :: "string \<Rightarrow> nat \<Rightarrow> real list option"
  librosa_trim :: trim

text \<open>The engine operation a request reaches, with the arguments it is called with.\<close>

datatype call =
    InferenceSft string string bool real
  | InferenceZeroShot string string "real list" bool real
  | InferenceCrossLingual string "real list" bool real
  | InferenceInstruct string string string bool real

text \<open>
  The effects of one run, in program order: \<^verbatim>\<open>gr.Warning\<close>, \<^verbatim>\<open>gr.Info\<close>,
  \<^verbatim>\<open>logging.info\<close>, a chunk handed to the caller by \<^verbatim>\<open>yield\<close>, the seeding of the random
  source and the start of an engine operation.
\<close>

type_synonym chunk = "nat \<times> real list"

datatype event =
    Warning string
  | Info string
  | Logging string
  | Yield chunk
  | SetSeed int
  | Invoke call

fun yielded :: "event list \<Rightarrow> chunk list" where
  "yielded [] = []"
| "yielded (Yield c # es) = c # yielded es"
| "yielded (e # es) = yielded es"

fun invoked :: "event list \<Rightarrow> call list" where
  "invoked [] = []"
| "invoked (Invoke c # es) = c # invoked es"
| "invoked (e # es) = invoked es"

text \<open>Decimal rendering of a number inside a formatted message.\<close>

fun str_nat :: "nat \<Rightarrow> string" where
  "str_nat n =
     (if n < 10 then [char_of (48 + n)]
      else str_nat (n div 10) @ [char_of (48 + n mod 10)])"

declare str_nat.simps [simp del]

subsection \<open>The sections of the function body\<close>

text \<open>Lines 62--67: the prompt audio the rest of the function works with.\<close>

definition prompt_wav :: "string option \<Rightarrow> string option \<Rightarrow> string option" where
  "prompt_wav upload recorded =
     (if upload \<noteq> None then upload
      else if recorded \<noteq> None then recorded
      else None)"

text \<open>Lines 69--77: the checks of Natural Language Control mode.\<close>

definition check_instruct :: "'g env \<Rightarrow> request \<Rightarrow> string option \<Rightarrow> event list" where
  "check_instruct env r wav =
     (if mode_checkbox_group r \<in> set [''Natural Language Control''] then
        (if instruct env = False then
           [Warning (''You are using Natural Language Control mode. '' @ model_dir env @
              '' model does not support this mode. Please use iic/CosyVoice-300M-Instruct model''),
            Yield (target_sr, default_data)]
         else []) @
        (if instruct_text r = [] then
           [Warning ''You are using Natural Language Control mode. Please enter instruct text'',
            Yield (target_sr, default_data)]
         else []) @
        (if wav \<noteq> None \<or> prompt_text r \<noteq> [] then
           [Info ''You are using Natural Language Control mode. Prompt audio/prompt text will be ignored'']
         else [])
      else [])"

text \<open>Lines 79--88: the checks of Cross-lingual Cloning mode.\<close>

definition check_cross_lingual :: "'g env \<Rightarrow> request \<Rightarrow> string option \<Rightarrow> event list" where
  "check_cross_lingual env r wav =
     (if mode_checkbox_group r \<in> set [''Cross-lingual Cloning''] then
        (if instruct env = True then
           [Warning (''You are using Cross-lingual Cloning mode. '' @ model_dir env @
              '' model does not support this mode. Please use iic/CosyVoice-300M model''),
            Yield (target_sr, default_data)]
         else []) @
        (if instruct_text r \<noteq> [] then
           [Info ''You are using Cross-lingual Cloning mode. Instruct text will be ignored'']
         else []) @
        (if wav = None then
           [Warning ''You are using Cross-lingual Cloning mode. Please provide prompt audio'',
            Yield (target_sr, default_data)]
         else []) @
        [Info ''You are using Cross-lingual Cloning mode. Please ensure synthesis text and prompt text are in different languages'']
      else [])"

text \<open>
  \<^verbatim>\<open>torchaudio.info(prompt_wav).sample_rate\<close>: there is no file to open when the argument is
  \<^verbatim>\<open>None\<close>, and the call raises.
\<close>

definition torchaudio_info :: "'g env \<Rightarrow> string option \<Rightarrow> error + nat" where
  "torchaudio_info env wav =
     (case wav of
        None \<Rightarrow> Inl NoPath
      | Some path \<Rightarrow>
          (case sample_rate env path of
             None \<Rightarrow> Inl AudioFileError
           | Some sr \<Rightarrow> Inr sr))"

text \<open>
  Lines 90--96: the prompt-audio checks shared by the two cloning modes. The sample rate is
  read after the test for a missing prompt, whatever that test found.
\<close>

definition check_prompt_audio ::
  "'g env \<Rightarrow> request \<Rightarrow> string option \<Rightarrow> event list \<times> error option" where
  "check_prompt_audio env r wav =
     (if mode_checkbox_group r \<in> set [''3s Rapid Cloning'', ''Cross-lingual Cloning''] then
        (let missing =
               (if wav = None then
                  [Warning ''Prompt audio is empty. Did you forget to input prompt audio?'',
                   Yield (target_sr, default_data)]
                else [])
         in case torchaudio_info env wav of
              Inl e \<Rightarrow> (missing, Some e)
            | Inr sr \<Rightarrow>
                (missing @
                 (if sr < prompt_sr then
                    [Warning (''Prompt audio sample rate '' @ str_nat sr @
                       '' is lower than '' @ str_nat prompt_sr),
                     Yield (target_sr, default_data)]
                  else []),
                 None))
      else ([], None))"

text \<open>Lines 98--100: the advisory of Pre-trained Voice mode.\<close>

definition check_sft :: "request \<Rightarrow> string option \<Rightarrow> event list" where
  "check_sft r wav =
     (if mode_checkbox_group r \<in> set [''Pre-trained Voice''] then
        (if instruct_text r \<noteq> [] \<or> wav \<noteq> None \<or> prompt_text r \<noteq> [] then
           [Info ''You are using Pre-trained Voice mode. Prompt text/prompt audio/instruct text will be ignored!'']
         else [])
      else [])"

text \<open>Lines 102--107: the checks of 3s Rapid Cloning mode.\<close>

definition check_zero_shot :: "request \<Rightarrow> event list" where
  "check_zero_shot r =
     (if mode_checkbox_group r \<in> set [''3s Rapid Cloning''] then
        (if prompt_text r = [] then
           [Warning ''Prompt text is empty. Did you forget to input prompt text?'',
            Yield (target_sr, default_data)]
         else []) @
        (if instruct_text r \<noteq> [] then
           [Info ''You are using 3s Rapid Cloning mode. Pre-trained voice/instruct text will be ignored!'']
         else [])
      else [])"

text \<open>\<^verbatim>\<open>postprocess(load_wav(prompt_wav, prompt_sr))\<close>.\<close>

definition prompt_speech_16k :: "'g env \<Rightarrow> string option \<Rightarrow> error + real list" where
  "prompt_speech_16k env wav =
     (case wav of
        None \<Rightarrow> Inl NoPath
      | Some path \<Rightarrow>
          (case load_wav env path prompt_sr of
             None \<Rightarrow> Inl AudioFileError
           | Some speech \<Rightarrow> postprocess (librosa_trim env) speech))"

text \<open>
  The loop \<^verbatim>\<open>for i in cosyvoice.inference_...(...): yield (target_sr, ...)\<close>, entered with
  the random state that \<^verbatim>\<open>set_all_random_seed(seed)\<close> has just installed.
\<close>

definition relay ::
  "'g env \<Rightarrow> request \<Rightarrow> call \<Rightarrow> 'g generation \<Rightarrow> (event list \<times> error option) \<times> 'g" where
  "relay env r c gen =
     (let ((segments, raised), g') = gen (set_all_random_seed env (seed r))
      in (([SetSeed (seed r), Invoke c] @ map (\<lambda>s. Yield (target_sr, s)) segments, raised), g'))"

text \<open>Lines 109--130: the four-way branch on the mode.\<close>

definition dispatch ::
  "'g env \<Rightarrow> request \<Rightarrow> string option \<Rightarrow> 'g \<Rightarrow> (event list \<times> error option) \<times> 'g" where
  "dispatch env r wav g =
     (if mode_checkbox_group r = ''Pre-trained Voice'' then
        (let ((es, raised), g') =
               relay env r (InferenceSft (tts_text r) (sft_dropdown r) (stream r) (speed r))
                 (inference_sft env (tts_text r) (sft_dropdown r) (stream r) (speed r))
         in ((Logging ''Received SFT inference request'' # es, raised), g'))
      else if mode_checkbox_group r = ''3s Rapid Cloning'' then
        (case prompt_speech_16k env wav of
           Inl e \<Rightarrow> (([Logging ''Received zero-shot inference request''], Some e), g)
         | Inr speech \<Rightarrow>
             (let ((es, raised), g') =
                    relay env r
                      (InferenceZeroShot (tts_text r) (prompt_text r) speech (stream r) (speed r))
                      (inference_zero_shot env (tts_text r) (prompt_text r) speech (stream r) (speed r))
              in ((Logging ''Received zero-shot inference request'' # es, raised), g')))
      else if mode_checkbox_group r = ''Cross-lingual Cloning'' then
        (case prompt_speech_16k env wav of
           Inl e \<Rightarrow> (([Logging ''Received cross-lingual inference request''], Some e), g)
         | Inr speech \<Rightarrow>
             (let ((es, raised), g') =
                    relay env r
                      (InferenceCrossLingual (tts_text r) speech (stream r) (speed r))
                      (inference_cross_lingual env (tts_text r) speech (stream r) (speed r))
              in ((Logging ''Received cross-lingual inference request'' # es, raised), g')))
      else
        (let ((es, raised), g') =
               relay env r
                 (InferenceInstruct (tts_text r) (sft_dropdown r) (instruct_text r) (stream r) (speed r))
                 (inference_instruct env (tts_text r) (sft_dropdown r) (instruct_text r) (stream r) (speed r))
         in ((Logging ''Received instruct inference request'' # es, raised), g')))"

subsection \<open>The generator\<close>

text \<open>
  Lines 69--107 in program order. The only statement of these lines that can raise is the
  sample-rate read of lines 94--95; the sections after it run only when it returned.
\<close>

definition validation :: "'g env \<Rightarrow> request \<Rightarrow> string option \<Rightarrow> event list \<times> error option" where
  "validation env r wav =
     (let e1 = check_instruct env r wav;
          e2 = check_cross_lingual env r wav;
          (e3, raised) = check_prompt_audio env r wav
      in case raised of
           Some e \<Rightarrow> (e1 @ e2 @ e3, Some e)
         | None \<Rightarrow> (e1 @ e2 @ e3 @ check_sft r wav @ check_zero_shot r, None))"

text \<open>
  \<^verbatim>\<open>generate_audio\<close> run to its end by a caller that takes every chunk: the trace of its
  effects, the exception it ended with (if any) and the random state it leaves. A \<^verbatim>\<open>yield\<close>
  hands a chunk over and the body resumes at the next statement.
\<close>

definition generate_audio :: "'g env \<Rightarrow> request \<Rightarrow> 'g \<Rightarrow> (event list \<times> error option) \<times> 'g" where
  "generate_audio env r g =
     (let wav = prompt_wav (prompt_wav_upload r) (prompt_wav_record r);
          (ev, raised) = validation env r wav
      in case raised of
           Some e \<Rightarrow> ((ev, Some e), g)
         | None \<Rightarrow>
             (let ((ed, raised'), g') = dispatch env r wav g
              in ((ev @ ed, raised'), g')))"

text \<open>The chunks the caller receives, and the engine operations that were started.\<close>

definition output_chunks :: "'g env \<Rightarrow> request \<Rightarrow> 'g \<Rightarrow> chunk list" where
  "output_chunks env r g = yielded (fst (fst (generate_audio env r g)))"

definition engine_calls :: "'g env \<Rightarrow> request \<Rightarrow> 'g \<Rightarrow> call list" where
  "engine_calls env r g = invoked (fst (fst (generate_audio env r g)))"

subsection \<open>A concrete environment for evaluation\<close>

text \<open>
  A small engine without instruct support whose random state is a counter. Every operation
  returns one segment that records the lengths of its text arguments, the streaming flag and the
  random state it started from. Two prompt files exist: a 16 kHz clip and an 8 kHz clip.
\<close>

definition toy_env :: "nat env" where
  "toy_env =
     \<lparr> model_dir = ''pretrained_models/CosyVoice-300M'',
       instruct = False,
       inference_sft = (\<lambda>text voice streaming sp g.
          (([[real (length text), real (length voice), of_bool streaming, real g]], None), Suc g)),
       inference_zero_shot = (\<lambda>text ptext speech streaming sp g.
          (([[real (length text), real (length ptext), real (length speech), real g]], None), Suc g)),
       inference_cross_lingual = (\<lambda>text speech streaming sp g.
          (([[real (length text), real (length speech), real g]], None), Suc g)),
       inference_instruct = (\<lambda>text voice itext streaming sp g.
          (([[real (length text), real (length voice), real (length itext), real g]], None), Suc g)),
       set_all_random_seed = (\<lambda>s. nat \<bar>s\<bar>),
       sample_rate = (\<lambda>path. if path = ''clip16k.wav'' then Some 16000
                             else if path = ''clip8k.wav'' then Some 8000 else None),
       load_wav = (\<lambda>path sr. if path = ''clip16k.wav'' then Some [0, 0.5, -1, 0.25, 0] else None),
       librosa_trim = zero_trim \<rparr>"

definition toy_request :: request where
  "toy_request =
     \<lparr> tts_text = ''hello'', mode_checkbox_group = ''Pre-trained Voice'', sft_dropdown = ''v1'',
       prompt_text = [], prompt_wav_upload = None, prompt_wav_record = None,
       instruct_text = [], seed = 42, stream = False, speed = 1 \<rparr>"

subsection \<open>The rule table of the specification\<close>

text \<open>
  The fatal conditions of each mode as the specification's rule table lists them, for
  comparison with the placeholders that \<open>validation\<close> yields. The sample rate is the one
  \<open>torchaudio_info\<close> reads; a prompt that cannot be read has no rate to be too low.
\<close>

definition spec_fatal_conditions :: "'g env \<Rightarrow> request \<Rightarrow> string option \<Rightarrow> bool list" where
  "spec_fatal_conditions env r wav =
     (let low_rate = (case torchaudio_info env wav of Inl e \<Rightarrow> False | Inr sr \<Rightarrow> sr < prompt_sr)
      in if mode_checkbox_group r = ''Natural Language Control'' then
           [instruct env = False, instruct_text r = []]
         else if mode_checkbox_group r = ''Cross-lingual Cloning'' then
           [instruct env = True, wav = None, low_rate]
         else if mode_checkbox_group r = ''3s Rapid Cloning'' then
           [wav = None, low_rate, prompt_text r = []]
         else [])"

lemmas run_defs =
  generate_audio_def validation_def dispatch_def relay_def prompt_wav_def check_instruct_def
  check_cross_lingual_def check_prompt_audio_def check_sft_def check_zero_shot_def
  torchaudio_info_def prompt_speech_16k_def output_chunks_def engine_calls_def Let_def

section \<open>Facts about the conditioner\<close>

lemma fold_max_abs: "fold (\<lambda>y m. max m \<bar>y\<bar>) xs a = Max (insert a (abs ` set xs))"
proof (induction xs arbitrary: a)
  case Nil
  show ?case by simp
next
  case (Cons x xs)
  have "Max (insert (max a \<bar>x\<bar>) (abs ` set xs)) = Max (insert a (insert \<bar>x\<bar> (abs ` set xs)))"
    by (cases "abs ` set xs = {}") (simp_all add: max.assoc)
  with Cons show ?case by simp
qed

lemma abs_max_peak: "xs \<noteq> [] \<Longrightarrow> abs_max xs = Inr (peak xs)"
proof (cases xs)
  case Nil
  assume "xs \<noteq> []" with Nil show ?thesis by simp
next
  case (Cons x ys)
  have "max 0 \<bar>x\<bar> = \<bar>x\<bar>" by simp
  then show ?thesis using Cons by (simp add: peak_def)
qed

lemma peak_Max: "xs \<noteq> [] \<Longrightarrow> peak xs = Max (abs ` set xs)"
proof -
  assume ne: "xs \<noteq> []"
  then obtain x where x: "x \<in> set xs" by (cases xs) auto
  have "Max (insert 0 (abs ` set xs)) = max 0 (Max (abs ` set xs))"
    using ne by simp
  moreover have "0 \<le> Max (abs ` set xs)"
  proof -
    have "\<bar>x\<bar> \<le> Max (abs ` set xs)" using x by simp
    then show ?thesis by linarith
  qed
  ultimately show ?thesis by (simp add: peak_def fold_max_abs)
qed

lemma peak_ge: "x \<in> set xs \<Longrightarrow> \<bar>x\<bar> \<le> peak xs"
  by (simp add: peak_def fold_max_abs)

lemma peak_nonneg: "0 \<le> peak xs"
  by (simp add: peak_def fold_max_abs)

lemma peak_le_iff: "0 \<le> b \<Longrightarrow> peak xs \<le> b \<longleftrightarrow> (\<forall>x\<in>set xs. \<bar>x\<bar> \<le> b)"
  by (auto simp add: peak_def fold_max_abs)

lemma peak_append_zeros: "peak (xs @ replicate n 0) = peak xs"
proof -
  have "insert 0 (abs ` (set xs \<union> set (replicate n (0::real)))) = insert 0 (abs ` set xs)"
    by (cases n) auto
  then show ?thesis unfolding peak_def fold_max_abs by simp
qed

lemma peak_scale: "0 \<le> c \<Longrightarrow> peak (map (\<lambda>x. x * c) xs) = peak xs * c"
proof (cases "xs = []")
  case True
  then show ?thesis by (simp add: peak_def)
next
  case False
  assume c: "0 \<le> c"
  have mono: "mono (\<lambda>y. y * c)" using c by (simp add: mono_def mult_right_mono)
  have "abs ` set (map (\<lambda>x. x * c) xs) = (\<lambda>y. y * c) ` (abs ` set xs)"
    using c by (auto simp: image_image abs_mult)
  moreover have "Max ((\<lambda>y. y * c) ` (abs ` set xs)) = Max (abs ` set xs) * c"
    using False by (intro mono_Max_commute [symmetric, OF mono]) auto
  ultimately show ?thesis using False by (simp add: peak_Max)
qed

lemma pad_len_eq: "pad_len = 4410"
  by (simp add: pad_len_def target_sr_def)

lemma postprocess_nonempty:
  assumes "trimmed trim speech \<noteq> []"
  shows "postprocess trim speech =
           Inr ((if peak (trimmed trim speech) > max_val
                 then map (\<lambda>x. x / peak (trimmed trim speech) * max_val) (trimmed trim speech)
                 else trimmed trim speech) @ replicate pad_len 0)"
  using assms by (simp add: postprocess_def abs_max_peak Let_def)

lemma postprocess_empty:
  assumes "trimmed trim speech = []"
  shows "postprocess trim speech = Inl EmptyReduction"
  using assms by (simp add: postprocess_def Let_def)

lemma default_data_zeros: "default_data = replicate 22050 0"
  by (simp only: default_data_def target_sr_def)

section \<open>Facts about the generator\<close>

lemma yielded_append: "yielded (xs @ ys) = yielded xs @ yielded ys"
  by (induction xs rule: yielded.induct) simp_all

lemma invoked_append: "invoked (xs @ ys) = invoked xs @ invoked ys"
  by (induction xs rule: invoked.induct) simp_all

lemma yielded_map_Yield: "yielded (map (\<lambda>s. Yield (n, s)) segs) = map (Pair n) segs"
  by (induction segs) simp_all

lemma invoked_map_Yield: "invoked (map (\<lambda>s. Yield (n, s)) segs) = []"
  by (induction segs) simp_all

lemma invoked_check_instruct: "invoked (check_instruct env r wav) = []"
  by (simp add: check_instruct_def)

lemma invoked_check_cross_lingual: "invoked (check_cross_lingual env r wav) = []"
  by (simp add: check_cross_lingual_def)

lemma invoked_check_prompt_audio: "invoked (fst (check_prompt_audio env r wav)) = []"
  by (simp add: check_prompt_audio_def Let_def invoked_append split: sum.splits)

lemma invoked_check_sft: "invoked (check_sft r wav) = []"
  by (simp add: check_sft_def)

lemma invoked_check_zero_shot: "invoked (check_zero_shot r) = []"
  by (simp add: check_zero_shot_def)

lemma invoked_validation: "invoked (fst (validation env r wav)) = []"
  using invoked_check_prompt_audio [of env r wav]
  by (auto simp add: validation_def Let_def invoked_append invoked_check_instruct
      invoked_check_cross_lingual invoked_check_sft invoked_check_zero_shot
      split: prod.splits option.splits)

lemma validation_sft:
  "mode_checkbox_group r = ''Pre-trained Voice'' \<Longrightarrow>
   validation env r wav = (check_sft r wav, None)"
  by (simp add: validation_def Let_def check_instruct_def check_cross_lingual_def
      check_prompt_audio_def check_zero_shot_def)

lemma validation_default:
  "mode_checkbox_group r \<notin> {''Pre-trained Voice'', ''3s Rapid Cloning'', ''Cross-lingual Cloning''} \<Longrightarrow>
   validation env r wav = (check_instruct env r wav, None)"
  by (simp add: validation_def Let_def check_sft_def check_cross_lingual_def
      check_prompt_audio_def check_zero_shot_def)

lemma generate_audio_sft:
  assumes "mode_checkbox_group r = ''Pre-trained Voice''"
    and "inference_sft env (tts_text r) (sft_dropdown r) (stream r) (speed r)
           (set_all_random_seed env (seed r)) = ((segs, raised), g')"
  shows "generate_audio env r g =
     ((check_sft r (prompt_wav (prompt_wav_upload r) (prompt_wav_record r)) @
       [Logging ''Received SFT inference request'', SetSeed (seed r),
        Invoke (InferenceSft (tts_text r) (sft_dropdown r) (stream r) (speed r))] @
       map (\<lambda>s. Yield (target_sr, s)) segs, raised), g')"
  using assms by (simp add: generate_audio_def validation_sft dispatch_def relay_def Let_def)

lemma generate_audio_default:
  assumes "mode_checkbox_group r \<notin> {''Pre-trained Voice'', ''3s Rapid Cloning'', ''Cross-lingual Cloning''}"
    and "inference_instruct env (tts_text r) (sft_dropdown r) (instruct_text r) (stream r) (speed r)
           (set_all_random_seed env (seed r)) = ((segs, raised), g')"
  shows "generate_audio env r g =
     ((check_instruct env r (prompt_wav (prompt_wav_upload r) (prompt_wav_record r)) @
       [Logging ''Received instruct inference request'', SetSeed (seed r),
        Invoke (InferenceInstruct (tts_text r) (sft_dropdown r) (instruct_text r) (stream r) (speed r))] @
       map (\<lambda>s. Yield (target_sr, s)) segs, raised), g')"
  using assms by (simp add: generate_audio_def validation_default dispatch_def relay_def Let_def)

lemma prompt_wav_cases:
  "prompt_wav (Some u) recorded = Some u"
  "prompt_wav None (Some v) = Some v"
  "prompt_wav None None = None"
  by (simp_all add: prompt_wav_def)

lemma prompt_wav_idem: "prompt_wav (prompt_wav upload recorded) None = prompt_wav upload recorded"
  by (simp add: prompt_wav_def)

lemma check_instruct_cong:
  "mode_checkbox_group r' = mode_checkbox_group r \<Longrightarrow> instruct_text r' = instruct_text r \<Longrightarrow>
   prompt_text r' = prompt_text r \<Longrightarrow> check_instruct env r' wav = check_instruct env r wav"
  by (simp add: check_instruct_def)

lemma check_cross_lingual_cong:
  "mode_checkbox_group r' = mode_checkbox_group r \<Longrightarrow> instruct_text r' = instruct_text r \<Longrightarrow>
   check_cross_lingual env r' wav = check_cross_lingual env r wav"
  by (simp add: check_cross_lingual_def)

lemma check_prompt_audio_cong:
  "mode_checkbox_group r' = mode_checkbox_group r \<Longrightarrow>
   check_prompt_audio env r' wav = check_prompt_audio env r wav"
  by (simp add: check_prompt_audio_def)

lemma check_sft_cong:
  "mode_checkbox_group r' = mode_checkbox_group r \<Longrightarrow> instruct_text r' = instruct_text r \<Longrightarrow>
   prompt_text r' = prompt_text r \<Longrightarrow> check_sft r' wav = check_sft r wav"
  by (simp add: check_sft_def)

lemma check_zero_shot_cong:
  "mode_checkbox_group r' = mode_checkbox_group r \<Longrightarrow> instruct_text r' = instruct_text r \<Longrightarrow>
   prompt_text r' = prompt_text r \<Longrightarrow> check_zero_shot r' = check_zero_shot r"
  by (simp add: check_zero_shot_def)

lemma validation_cong:
  assumes "mode_checkbox_group r' = mode_checkbox_group r" "instruct_text r' = instruct_text r"
    "prompt_text r' = prompt_text r"
  shows "validation env r' wav = validation env r wav"
  unfolding validation_def
  by (simp only: check_instruct_cong [OF assms] check_cross_lingual_cong [OF assms(1,2)]
      check_prompt_audio_cong [OF assms(1)] check_sft_cong [OF assms] check_zero_shot_cong [OF assms])

lemma dispatch_cong:
  assumes "mode_checkbox_group r' = mode_checkbox_group r" "instruct_text r' = instruct_text r"
    "prompt_text r' = prompt_text r" "tts_text r' = tts_text r" "sft_dropdown r' = sft_dropdown r"
    "stream r' = stream r" "speed r' = speed r" "seed r' = seed r"
  shows "dispatch env r' wav g = dispatch env r wav g"
  unfolding dispatch_def relay_def by (simp only: assms)

lemma fst_dispatch_state: "fst (dispatch env r wav g1) = fst (dispatch env r wav g2)"
  by (simp add: dispatch_def relay_def Let_def split: prod.splits sum.splits)

lemma generate_audio_cong:
  assumes "mode_checkbox_group r' = mode_checkbox_group r" "instruct_text r' = instruct_text r"
    "prompt_text r' = prompt_text r" "tts_text r' = tts_text r" "sft_dropdown r' = sft_dropdown r"
    "stream r' = stream r" "speed r' = speed r" "seed r' = seed r"
    "prompt_wav (prompt_wav_upload r') (prompt_wav_record r') =
     prompt_wav (prompt_wav_upload r) (prompt_wav_record r)"
  shows "generate_audio env r' g = generate_audio env r g"
  unfolding generate_audio_def
  by (simp only: assms(9) validation_cong [OF assms(1-3)] dispatch_cong [OF assms(1-8)])

lemma fst_generate_audio_state: "fst (generate_audio env r g1) = fst (generate_audio env r g2)"
  using fst_dispatch_state [of env r "prompt_wav (prompt_wav_upload r) (prompt_wav_record r)" g1 g2]
  by (auto simp add: generate_audio_def Let_def split: prod.splits option.splits)

lemma generate_audio_trace_shape:
  "invoked (fst (fst (generate_audio env r g))) = [] \<or>
   (\<exists>pre c segs.
      fst (fst (generate_audio env r g)) =
        pre @ [SetSeed (seed r), Invoke c] @ map (\<lambda>s. Yield (target_sr, s)) segs \<and>
      invoked pre = [])"
proof -
  define wav where "wav = prompt_wav (prompt_wav_upload r) (prompt_wav_record r)"
  obtain ev raised where v: "validation env r wav = (ev, raised)" by (metis surj_pair)
  have iv: "invoked ev = []" using invoked_validation [of env r wav] v by simp
  show ?thesis
  proof (cases raised)
    case (Some e)
    then show ?thesis using v iv by (simp add: generate_audio_def wav_def [symmetric])
  next
    case None
    have d: "invoked (fst (fst (dispatch env r wav g))) = [] \<or>
      (\<exists>l c segs. fst (fst (dispatch env r wav g)) =
          [Logging l] @ [SetSeed (seed r), Invoke c] @ map (\<lambda>s. Yield (target_sr, s)) segs)"
      by (auto simp add: dispatch_def relay_def Let_def split: prod.splits sum.splits)
    have g: "fst (fst (generate_audio env r g)) = ev @ fst (fst (dispatch env r wav g))"
      using v None by (simp add: generate_audio_def wav_def [symmetric] split: prod.splits)
    from d show ?thesis
    proof
      assume "invoked (fst (fst (dispatch env r wav g))) = []"
      then show ?thesis using g iv by (simp add: invoked_append)
    next
      assume "\<exists>l c segs. fst (fst (dispatch env r wav g)) =
          [Logging l] @ [SetSeed (seed r), Invoke c] @ map (\<lambda>s. Yield (target_sr, s)) segs"
      then obtain l c segs where "fst (fst (dispatch env r wav g)) =
          [Logging l] @ [SetSeed (seed r), Invoke c] @ map (\<lambda>s. Yield (target_sr, s)) segs"
        by blast
      then have "fst (fst (generate_audio env r g)) =
          (ev @ [Logging l]) @ [SetSeed (seed r), Invoke c] @ map (\<lambda>s. Yield (target_sr, s)) segs"
        using g by simp
      moreover have "invoked (ev @ [Logging l]) = []" using iv by (simp add: invoked_append)
      ultimately show ?thesis by blast
    qed
  qed
qed

section \<open>Facts about the seed generator\<close>

lemma generate_seed_eq:
  "generate_seed randint g =
     ([(''__type__'', PyStr ''update''), (''value'', PyInt (fst (randint 1 100000000 g)))],
      snd (randint 1 100000000 g))"
  by (simp add: generate_seed_def split: prod.splits)

lemma generate_seeds_range:
  assumes "randint_contract randint"
  shows "\<forall>u \<in> set (generate_seeds randint n g).
           \<exists>v. map_of u ''value'' = Some (PyInt v) \<and> 1 \<le> v \<and> v \<le> 100000000"
proof (induction n arbitrary: g)
  case 0
  show ?case by simp
next
  case (Suc n)
  have "1 \<le> fst (randint 1 100000000 g) \<and> fst (randint 1 100000000 g) \<le> 100000000"
    using assms by (simp add: randint_contract_def)
  then show ?case using Suc [of "snd (randint 1 100000000 g)"]
    by (simp add: generate_seed_eq)
qed

lemma counter_randint_contract: "randint_contract counter_randint"
proof -
  have "a + int g mod (b - a + 1) \<le> b" if "a \<le> b" for a b :: int and g :: nat
  proof -
    have "0 < b - a + 1" using that by simp
    then have "int g mod (b - a + 1) < b - a + 1" by (rule pos_mod_bound)
    then show ?thesis by linarith
  qed
  then show ?thesis by (simp add: randint_contract_def counter_randint_def)
qed

section \<open>The claims\<close>

text \<open>
  C1, evaluated at three requests with a fatal condition. In Natural Language Control mode on an
  engine without instruct support (instruct text given), the generator yields the placeholder
  \<open>(22050, 22050 zeros)\<close>, then goes on to seed the random source and start
  \<^verbatim>\<open>inference_instruct\<close>, whose segment follows as a second chunk. In Cross-lingual Cloning
  mode without prompt audio it yields the placeholder twice (lines 87 and 93) and then ends with
  the exception of the sample-rate read at line 94. In Natural Language Control mode on an
  engine with instruct support and an empty instruct text it yields the placeholder and then
  the segment of \<^verbatim>\<open>inference_instruct\<close>. None of the streams is the single placeholder.
\<close>

theorem fatal_validation_continues:
  "output_chunks toy_env
     (toy_request\<lparr>mode_checkbox_group := ''Natural Language Control'', instruct_text := ''calm''\<rparr>) 0 =
     [(target_sr, default_data), (target_sr, [5, 2, 4, 42])] \<and>
   engine_calls toy_env
     (toy_request\<lparr>mode_checkbox_group := ''Natural Language Control'', instruct_text := ''calm''\<rparr>) 0 =
     [InferenceInstruct ''hello'' ''v1'' ''calm'' False 1] \<and>
   fst (generate_audio toy_env (toy_request\<lparr>mode_checkbox_group := ''Cross-lingual Cloning''\<rparr>) 0) =
     ([Warning ''You are using Cross-lingual Cloning mode. Please provide prompt audio'',
       Yield (target_sr, default_data),
       Info ''You are using Cross-lingual Cloning mode. Please ensure synthesis text and prompt text are in different languages'',
       Warning ''Prompt audio is empty. Did you forget to input prompt audio?'',
       Yield (target_sr, default_data)], Some NoPath) \<and>
   fst (generate_audio (toy_env\<lparr>instruct := True\<rparr>)
          (toy_request\<lparr>mode_checkbox_group := ''Natural Language Control''\<rparr>) 0) =
     ([Warning ''You are using Natural Language Control mode. Please enter instruct text'',
       Yield (target_sr, default_data),
       Logging ''Received instruct inference request'',
       SetSeed 42,
       Invoke (InferenceInstruct ''hello'' ''v1'' [] False 1),
       Yield (target_sr, [5, 2, 0, 42])], None) \<and>
   target_sr = 22050 \<and> default_data = replicate 22050 0"
proof -
  have run: "output_chunks toy_env
     (toy_request\<lparr>mode_checkbox_group := ''Natural Language Control'', instruct_text := ''calm''\<rparr>) 0 =
     [(target_sr, default_data), (target_sr, [5, 2, 4, 42])] \<and>
   engine_calls toy_env
     (toy_request\<lparr>mode_checkbox_group := ''Natural Language Control'', instruct_text := ''calm''\<rparr>) 0 =
     [InferenceInstruct ''hello'' ''v1'' ''calm'' False 1] \<and>
   fst (generate_audio toy_env (toy_request\<lparr>mode_checkbox_group := ''Cross-lingual Cloning''\<rparr>) 0) =
     ([Warning ''You are using Cross-lingual Cloning mode. Please provide prompt audio'',
       Yield (target_sr, default_data),
       Info ''You are using Cross-lingual Cloning mode. Please ensure synthesis text and prompt text are in different languages'',
       Warning ''Prompt audio is empty. Did you forget to input prompt audio?'',
       Yield (target_sr, default_data)], Some NoPath) \<and>
   fst (generate_audio (toy_env\<lparr>instruct := True\<rparr>)
          (toy_request\<lparr>mode_checkbox_group := ''Natural Language Control''\<rparr>) 0) =
     ([Warning ''You are using Natural Language Control mode. Please enter instruct text'',
       Yield (target_sr, default_data),
       Logging ''Received instruct inference request'',
       SetSeed 42,
       Invoke (InferenceInstruct ''hello'' ''v1'' [] False 1),
       Yield (target_sr, [5, 2, 0, 42])], None)"
    by (simp add: run_defs toy_env_def toy_request_def)
  have rate: "target_sr = 22050" by (simp only: target_sr_def)
  from run default_data_zeros rate show ?thesis by blast
qed

text \<open>
  C2, evaluated at a 3s Rapid Cloning request with an empty prompt text and a readable 16 kHz
  prompt: after the warning and the placeholder the generator conditions the prompt, seeds the
  random source and starts \<^verbatim>\<open>inference_zero_shot\<close> with the empty prompt text; the engine's
  segment is yielded after the placeholder.
\<close>

theorem empty_prompt_text_still_synthesizes:
  "fst (generate_audio toy_env
     (toy_request\<lparr>mode_checkbox_group := ''3s Rapid Cloning'',
        prompt_wav_upload := Some ''clip16k.wav''\<rparr>) 0) =
     ([Warning ''Prompt text is empty. Did you forget to input prompt text?'',
       Yield (target_sr, default_data),
       Logging ''Received zero-shot inference request'',
       SetSeed 42,
       Invoke (InferenceZeroShot ''hello'' [] ([0.4, -0.8, 0.2] @ replicate pad_len 0) False 1),
       Yield (target_sr, [5, 0, 3 + real pad_len, 42])], None)"
  by (simp add: run_defs toy_env_def toy_request_def prompt_sr_def postprocess_def trimmed_def
      zero_trim_def max_val_def)

text \<open>
  C3: in Pre-trained Voice mode the run is the optional advisory, the log line, the seeding
  with the request's seed, the start of \<^verbatim>\<open>inference_sft\<close> on the synthesis text, the selected
  voice, the streaming flag and the speed, and one chunk per segment of that operation. The
  prompt text, the prompt audio and the instruct text occur in the advisory's condition only:
  the operation, its arguments, the chunks, the outcome and the random state left behind do not
  depend on them.
\<close>

theorem pretrained_voice_dispatch:
  assumes "mode_checkbox_group r = ''Pre-trained Voice''"
  shows "\<exists>segs raised g'.
     inference_sft env (tts_text r) (sft_dropdown r) (stream r) (speed r)
       (set_all_random_seed env (seed r)) = ((segs, raised), g') \<and>
     generate_audio env r g =
       (((if instruct_text r \<noteq> [] \<or> prompt_wav (prompt_wav_upload r) (prompt_wav_record r) \<noteq> None \<or>
             prompt_text r \<noteq> []
          then [Info ''You are using Pre-trained Voice mode. Prompt text/prompt audio/instruct text will be ignored!'']
          else []) @
         [Logging ''Received SFT inference request'', SetSeed (seed r),
          Invoke (InferenceSft (tts_text r) (sft_dropdown r) (stream r) (speed r))] @
         map (\<lambda>s. Yield (target_sr, s)) segs, raised), g') \<and>
     engine_calls env r g = [InferenceSft (tts_text r) (sft_dropdown r) (stream r) (speed r)] \<and>
     output_chunks env r g = map (Pair target_sr) segs"
proof -
  obtain segs raised g' where gen:
    "inference_sft env (tts_text r) (sft_dropdown r) (stream r) (speed r)
       (set_all_random_seed env (seed r)) = ((segs, raised), g')"
    by (metis surj_pair)
  have adv: "check_sft r wav =
      (if instruct_text r \<noteq> [] \<or> wav \<noteq> None \<or> prompt_text r \<noteq> []
       then [Info ''You are using Pre-trained Voice mode. Prompt text/prompt audio/instruct text will be ignored!'']
       else [])" for wav
    using assms by (simp add: check_sft_def)
  note ga = generate_audio_sft [OF assms gen, of g]
  have calls: "engine_calls env r g = [InferenceSft (tts_text r) (sft_dropdown r) (stream r) (speed r)]"
    by (simp add: engine_calls_def ga invoked_append invoked_check_sft invoked_map_Yield)
  have chunks: "output_chunks env r g = map (Pair target_sr) segs"
    by (simp add: output_chunks_def ga yielded_append yielded_map_Yield adv)
  show ?thesis using gen ga calls chunks unfolding adv by blast
qed

theorem pretrained_voice_dispatch_witness:
  "mode_checkbox_group toy_request = ''Pre-trained Voice'' \<and>
   generate_audio toy_env toy_request 0 =
     (([Logging ''Received SFT inference request'', SetSeed 42,
        Invoke (InferenceSft ''hello'' ''v1'' False 1),
        Yield (target_sr, [5, 2, 0, 42])], None), 43) \<and>
   engine_calls toy_env (toy_request\<lparr>prompt_text := ''hi'', instruct_text := ''calm''\<rparr>) 0 =
     [InferenceSft ''hello'' ''v1'' False 1] \<and>
   output_chunks toy_env (toy_request\<lparr>prompt_text := ''hi'', instruct_text := ''calm''\<rparr>) 0 =
     [(target_sr, [5, 2, 0, 42])]"
  using pretrained_voice_dispatch [of toy_request toy_env 0]
    pretrained_voice_dispatch
      [of "toy_request\<lparr>prompt_text := ''hi'', instruct_text := ''calm''\<rparr>" toy_env 0]
  by (simp add: run_defs toy_env_def toy_request_def)

text \<open>
  C4, over real-valued samples: when the trimmed signal \<open>t\<close> has a sample,
  \<^verbatim>\<open>postprocess\<close> returns a waveform whose peak absolute amplitude is at most
  \<open>max_val = 0.8\<close>, so every sample lies within \<open>\<plusminus>0.8\<close>. If the peak of \<open>t\<close> exceeds
  0.8, every sample of \<open>t\<close> is multiplied by \<open>0.8 / peak t\<close> and the new peak is exactly 0.8;
  otherwise the samples of \<open>t\<close> are returned as they are. In both cases the zero padding
  follows.
\<close>

theorem postprocess_clipping:
  assumes "trimmed trim speech = t" and "t \<noteq> []"
  shows "\<exists>out. postprocess trim speech = Inr out \<and> peak out \<le> max_val \<and>
           (\<forall>x \<in> set out. \<bar>x\<bar> \<le> 0.8) \<and>
           (if peak t > max_val
            then out = map (\<lambda>x. x * (max_val / peak t)) t @ replicate pad_len 0 \<and> peak out = max_val
            else out = t @ replicate pad_len 0)"
proof -
  have bound: "(\<forall>x \<in> set out. \<bar>x\<bar> \<le> 0.8)" if "peak out \<le> max_val" for out
    using that peak_le_iff [of max_val out] by (simp add: max_val_def)
  show ?thesis
  proof (cases "peak t > max_val")
    case True
    then have pos: "0 < peak t" by (simp add: max_val_def)
    have eq: "(\<lambda>x. x / peak t * max_val) = (\<lambda>x. x * (max_val / peak t))"
      by (rule ext) simp
    have "0 \<le> max_val / peak t" using pos by (simp add: max_val_def)
    then have "peak (map (\<lambda>x. x * (max_val / peak t)) t) = peak t * (max_val / peak t)"
      by (rule peak_scale)
    also have "\<dots> = max_val" using pos by simp
    finally have pk: "peak (map (\<lambda>x. x * (max_val / peak t)) t @ replicate pad_len 0) = max_val"
      by (simp add: peak_append_zeros)
    then have "\<forall>x \<in> set (map (\<lambda>x. x * (max_val / peak t)) t @ replicate pad_len 0). \<bar>x\<bar> \<le> 0.8"
      by (intro bound) simp
    then show ?thesis
      using True pk postprocess_nonempty [of trim speech] assms by (simp add: eq)
  next
    case False
    then have "peak (t @ replicate pad_len 0) \<le> max_val" by (simp add: peak_append_zeros)
    then have "\<forall>x \<in> set (t @ replicate pad_len 0). \<bar>x\<bar> \<le> 0.8" by (rule bound)
    then show ?thesis
      using False postprocess_nonempty [of trim speech] assms by (simp add: peak_append_zeros)
  qed
qed

theorem postprocess_clipping_witness:
  "trimmed zero_trim [0, 0.5, -1, 0.25, 0] = [0.5, -1, 0.25] \<and> [0.5, -1, 0.25::real] \<noteq> [] \<and>
   peak [0.5, -1, 0.25] = 1 \<and>
   postprocess zero_trim [0, 0.5, -1, 0.25, 0] = Inr ([0.4, -0.8, 0.2] @ replicate pad_len 0) \<and>
   peak ([0.4, -0.8, 0.2] @ replicate pad_len 0) = max_val"
proof -
  have t: "trimmed zero_trim [0, 0.5, -1, 0.25, 0] = [0.5, -1, 0.25]"
    by (simp add: zero_trim_def trimmed_def)
  have pk: "peak [0.5, -1, 0.25] = 1" by (simp add: peak_def)
  from postprocess_clipping [of zero_trim "[0, 0.5, -1, 0.25, 0]" "[0.5, -1, 0.25]"] show ?thesis
    using t pk by (auto simp add: max_val_def)
qed

text \<open>
  C5: whenever \<^verbatim>\<open>postprocess\<close> returns, its result is as long as the trimmed signal (scaling
  keeps the length) plus 4410 samples, and everything after the trimmed length is 4410 zeros.
  The pad count is \<open>int(target_sr * 0.2)\<close> with the output rate \<open>target_sr = 22050\<close>, not the
  16 kHz rate of the waveform. It fails to return only when the trimmed signal has no sample,
  where the peak reduction raises.
\<close>

theorem postprocess_padding:
  "case postprocess trim speech of
     Inl e \<Rightarrow> e = EmptyReduction \<and> trimmed trim speech = []
   | Inr out \<Rightarrow>
       length out = length (trimmed trim speech) + 4410 \<and>
       drop (length (trimmed trim speech)) out = replicate 4410 0 \<and>
       pad_len = 4410 \<and> pad_len = nat \<lfloor>0.2 * real target_sr\<rfloor> \<and> target_sr = 22050"
proof (cases "trimmed trim speech = []")
  case True
  then show ?thesis by (simp add: postprocess_empty)
next
  case False
  have "pad_len = nat \<lfloor>0.2 * real target_sr\<rfloor>" by (simp add: pad_len_def target_sr_def)
  then show ?thesis
    using postprocess_nonempty [OF False] by (simp add: pad_len_eq target_sr_def)
qed

theorem postprocess_padding_witness:
  "postprocess zero_trim [0, 0.5, -1, 0.25, 0] = Inr ([0.4, -0.8, 0.2] @ replicate 4410 0) \<and>
   length ([0.4, -0.8, 0.2::real] @ replicate 4410 0) = 3 + 4410 \<and>
   postprocess zero_trim [0, 0] = Inl EmptyReduction"
  using postprocess_padding [of zero_trim "[0, 0.5, -1, 0.25, 0]"]
    postprocess_padding [of zero_trim "[0, 0]"]
  by (simp add: zero_trim_def trimmed_def postprocess_def peak_def max_val_def pad_len_eq
      split: sum.splits)

text \<open>
  C6: the effective prompt audio is the uploaded reference when there is one, else the recorded
  reference when there is one, else none. It is computed once, before the checks, and nothing
  later reads the two references again: a request and the request that carries its effective
  prompt as the upload and no recording run identically.
\<close>

theorem prompt_wav_precedence:
  "prompt_wav (Some u) recorded = Some u \<and>
   prompt_wav None (Some v) = Some v \<and>
   prompt_wav None None = None \<and>
   generate_audio env r g =
     generate_audio env
       (r\<lparr>prompt_wav_upload := prompt_wav (prompt_wav_upload r) (prompt_wav_record r),
          prompt_wav_record := None\<rparr>) g"
proof -
  have "generate_audio env
       (r\<lparr>prompt_wav_upload := prompt_wav (prompt_wav_upload r) (prompt_wav_record r),
          prompt_wav_record := None\<rparr>) g = generate_audio env r g"
    by (rule generate_audio_cong) (simp_all add: prompt_wav_idem)
  then show ?thesis by (simp add: prompt_wav_cases)
qed

theorem prompt_wav_precedence_witness:
  "prompt_wav (Some ''up.wav'') (Some ''mic.wav'') = Some ''up.wav'' \<and>
   prompt_wav None (Some ''mic.wav'') = Some ''mic.wav'' \<and>
   prompt_wav None None = (None :: string option)"
  using prompt_wav_precedence [of "''up.wav''" "Some ''mic.wav''" "''mic.wav''" toy_env toy_request 0]
  by simp

text \<open>
  C7 as stated fails: the selected voice and the streaming flag are passed to the engine, so
  two requests that agree on mode, text, prompt audio, prompt text, instruct text, speed and
  seed can produce different chunks. Here the two requests differ in the voice alone, and in
  the streaming flag alone.
\<close>

theorem seed_determinism_counterexample:
  "mode_checkbox_group (toy_request\<lparr>sft_dropdown := ''voice2''\<rparr>) = mode_checkbox_group toy_request \<and>
   tts_text (toy_request\<lparr>sft_dropdown := ''voice2''\<rparr>) = tts_text toy_request \<and>
   prompt_wav_upload (toy_request\<lparr>sft_dropdown := ''voice2''\<rparr>) = prompt_wav_upload toy_request \<and>
   prompt_wav_record (toy_request\<lparr>sft_dropdown := ''voice2''\<rparr>) = prompt_wav_record toy_request \<and>
   prompt_text (toy_request\<lparr>sft_dropdown := ''voice2''\<rparr>) = prompt_text toy_request \<and>
   instruct_text (toy_request\<lparr>sft_dropdown := ''voice2''\<rparr>) = instruct_text toy_request \<and>
   speed (toy_request\<lparr>sft_dropdown := ''voice2''\<rparr>) = speed toy_request \<and>
   seed (toy_request\<lparr>sft_dropdown := ''voice2''\<rparr>) = seed toy_request \<and>
   output_chunks toy_env toy_request 0 = [(target_sr, [5, 2, 0, 42])] \<and>
   output_chunks toy_env (toy_request\<lparr>sft_dropdown := ''voice2''\<rparr>) 0 = [(target_sr, [5, 6, 0, 42])] \<and>
   output_chunks toy_env (toy_request\<lparr>sft_dropdown := ''voice2''\<rparr>) 0 \<noteq>
     output_chunks toy_env toy_request 0 \<and>
   output_chunks toy_env (toy_request\<lparr>stream := True\<rparr>) 0 = [(target_sr, [5, 2, 1, 42])] \<and>
   output_chunks toy_env (toy_request\<lparr>stream := True\<rparr>) 0 \<noteq> output_chunks toy_env toy_request 0"
  by (simp add: run_defs toy_env_def toy_request_def)

text \<open>
  C7, amended: on one environment, two requests that agree on mode, text, selected voice,
  effective prompt audio, prompt text, instruct text, streaming flag, speed and seed have the
  same trace and outcome, hence the same chunk sequence, whatever the random state was before
  either run. And whenever an engine operation is started, the seeding with the request's seed is
  the event immediately before it, and only chunks follow.
\<close>

theorem seed_determinism:
  assumes "mode_checkbox_group r1 = mode_checkbox_group r2"
    and "tts_text r1 = tts_text r2"
    and "sft_dropdown r1 = sft_dropdown r2"
    and "prompt_wav (prompt_wav_upload r1) (prompt_wav_record r1) =
         prompt_wav (prompt_wav_upload r2) (prompt_wav_record r2)"
    and "prompt_text r1 = prompt_text r2"
    and "instruct_text r1 = instruct_text r2"
    and "stream r1 = stream r2"
    and "speed r1 = speed r2"
    and "seed r1 = seed r2"
  shows "fst (generate_audio env r1 g1) = fst (generate_audio env r2 g2) \<and>
         output_chunks env r1 g1 = output_chunks env r2 g2 \<and>
         (engine_calls env r1 g1 = [] \<or>
          (\<exists>pre c segs.
             fst (fst (generate_audio env r1 g1)) =
               pre @ [SetSeed (seed r1), Invoke c] @ map (\<lambda>s. Yield (target_sr, s)) segs \<and>
             invoked pre = []))"
proof -
  have "generate_audio env r1 g1 = generate_audio env r2 g1"
    by (rule generate_audio_cong) (simp_all add: assms)
  then have eq: "fst (generate_audio env r1 g1) = fst (generate_audio env r2 g2)"
    using fst_generate_audio_state [of env r2 g1 g2] by simp
  then have "output_chunks env r1 g1 = output_chunks env r2 g2"
    by (simp add: output_chunks_def)
  with eq show ?thesis
    using generate_audio_trace_shape [of env r1 g1] by (simp add: engine_calls_def)
qed

theorem seed_determinism_witness:
  "output_chunks toy_env
     (toy_request\<lparr>prompt_wav_upload := Some ''up.wav'', prompt_wav_record := Some ''mic.wav''\<rparr>) 0 =
   output_chunks toy_env
     (toy_request\<lparr>prompt_wav_upload := Some ''up.wav'', prompt_wav_record := None\<rparr>) 7 \<and>
   output_chunks toy_env
     (toy_request\<lparr>prompt_wav_upload := Some ''up.wav'', prompt_wav_record := None\<rparr>) 7 =
     [(target_sr, [5, 2, 0, 42])]"
proof -
  have "output_chunks toy_env
     (toy_request\<lparr>prompt_wav_upload := Some ''up.wav'', prompt_wav_record := Some ''mic.wav''\<rparr>) 0 =
   output_chunks toy_env
     (toy_request\<lparr>prompt_wav_upload := Some ''up.wav'', prompt_wav_record := None\<rparr>) 7"
    using seed_determinism
      [of "toy_request\<lparr>prompt_wav_upload := Some ''up.wav'', prompt_wav_record := Some ''mic.wav''\<rparr>"
          "toy_request\<lparr>prompt_wav_upload := Some ''up.wav'', prompt_wav_record := None\<rparr>"
          toy_env 0 7]
    by (simp add: prompt_wav_def)
  moreover have "output_chunks toy_env
     (toy_request\<lparr>prompt_wav_upload := Some ''up.wav'', prompt_wav_record := None\<rparr>) 7 =
     [(target_sr, [5, 2, 0, 42])]"
    by (simp add: run_defs toy_env_def toy_request_def)
  ultimately show ?thesis by simp
qed

text \<open>
  C8: \<^verbatim>\<open>generate_seed\<close> takes no argument; it asks the generator for an integer between 1
  and 100000000 and returns it unchanged under the key \<open>value\<close>. Given the contract of
  \<^verbatim>\<open>random.randint\<close> (the result lies between the bounds, both included), the returned seed
  lies in \<open>[1, 100000000]\<close>, and so does every seed of any number of invocations in a row.
\<close>

theorem generate_seed_range:
  assumes "randint_contract randint"
  shows "fst (generate_seed randint g) =
           [(''__type__'', PyStr ''update''), (''value'', PyInt (fst (randint 1 100000000 g)))] \<and>
         (\<exists>v. map_of (fst (generate_seed randint g)) ''value'' = Some (PyInt v) \<and>
              1 \<le> v \<and> v \<le> 100000000) \<and>
         (\<forall>u \<in> set (generate_seeds randint n g).
            \<exists>v. map_of u ''value'' = Some (PyInt v) \<and> 1 \<le> v \<and> v \<le> 100000000)"
proof -
  have "1 \<le> fst (randint 1 100000000 g) \<and> fst (randint 1 100000000 g) \<le> 100000000"
    using assms by (simp add: randint_contract_def)
  then show ?thesis using generate_seeds_range [OF assms] by (simp add: generate_seed_eq)
qed

theorem generate_seed_range_witness:
  "randint_contract counter_randint \<and>
   fst (generate_seed counter_randint 99999999) =
     [(''__type__'', PyStr ''update''), (''value'', PyInt 100000000)] \<and>
   generate_seeds counter_randint 2 99999999 =
     [[(''__type__'', PyStr ''update''), (''value'', PyInt 100000000)],
      [(''__type__'', PyStr ''update''), (''value'', PyInt 1)]]"
proof -
  have two: "(2::nat) = Suc (Suc 0)" by simp
  show ?thesis
    using generate_seed_range [OF counter_randint_contract, of 99999999 2]
    by (simp add: counter_randint_contract generate_seed_eq counter_randint_def two)
qed

text \<open>
  C9 as stated fails in the cloning modes when the prompt audio is missing. A 3s Rapid Cloning
  request without prompt audio and with an empty prompt text has two fatal conditions, but the
  run yields one placeholder and ends with the exception of the sample-rate read at line 94: the
  prompt-text check is never reached and no engine operation is started. A Cross-lingual
  Cloning request without prompt audio on an engine with instruct support has two fatal
  conditions and yields three placeholders (lines 82, 87 and 93) before the same exception.
\<close>

theorem fatal_checks_independent_counterexample:
  "count_list (spec_fatal_conditions toy_env
      (toy_request\<lparr>mode_checkbox_group := ''3s Rapid Cloning''\<rparr>) None) True = 2 \<and>
   fst (generate_audio toy_env (toy_request\<lparr>mode_checkbox_group := ''3s Rapid Cloning''\<rparr>) 0) =
     ([Warning ''Prompt audio is empty. Did you forget to input prompt audio?'',
       Yield (target_sr, default_data)], Some NoPath) \<and>
   output_chunks toy_env (toy_request\<lparr>mode_checkbox_group := ''3s Rapid Cloning''\<rparr>) 0 =
     [(target_sr, default_data)] \<and>
   engine_calls toy_env (toy_request\<lparr>mode_checkbox_group := ''3s Rapid Cloning''\<rparr>) 0 = [] \<and>
   count_list (spec_fatal_conditions (toy_env\<lparr>instruct := True\<rparr>)
      (toy_request\<lparr>mode_checkbox_group := ''Cross-lingual Cloning''\<rparr>) None) True = 2 \<and>
   output_chunks (toy_env\<lparr>instruct := True\<rparr>)
      (toy_request\<lparr>mode_checkbox_group := ''Cross-lingual Cloning''\<rparr>) 0 =
     [(target_sr, default_data), (target_sr, default_data), (target_sr, default_data)] \<and>
   snd (fst (generate_audio (toy_env\<lparr>instruct := True\<rparr>)
      (toy_request\<lparr>mode_checkbox_group := ''Cross-lingual Cloning''\<rparr>) 0)) = Some NoPath"
  by (simp add: run_defs spec_fatal_conditions_def toy_env_def toy_request_def)

text \<open>
  C9, amended: in Natural Language Control mode a fatal check does not end the run. The chunk
  sequence is one placeholder for each of the two conditions that holds (engine without
  instruct support, empty instruct text), followed by the chunks of \<^verbatim>\<open>inference_instruct\<close>,
  which is started in every case. In every mode, when lines 69--107 run to their end without
  an exception, they yield exactly one placeholder per fatal condition of the rule table that
  holds. The placeholder is the pair of 22050 and 22050 zeros.
\<close>

theorem fatal_checks_independent:
  "(mode_checkbox_group r = ''Natural Language Control'' \<longrightarrow>
      (\<exists>segs raised g'.
         inference_instruct env (tts_text r) (sft_dropdown r) (instruct_text r) (stream r) (speed r)
           (set_all_random_seed env (seed r)) = ((segs, raised), g') \<and>
         output_chunks env r g =
           replicate (count_list [instruct env = False, instruct_text r = []] True)
             (target_sr, default_data) @ map (Pair target_sr) segs \<and>
         engine_calls env r g =
           [InferenceInstruct (tts_text r) (sft_dropdown r) (instruct_text r) (stream r) (speed r)])) \<and>
   (snd (validation env r wav) = None \<longrightarrow>
      yielded (fst (validation env r wav)) =
        replicate (count_list (spec_fatal_conditions env r wav) True) (target_sr, default_data)) \<and>
   target_sr = 22050 \<and> default_data = replicate 22050 0"
proof (intro conjI impI)
  assume m: "mode_checkbox_group r = ''Natural Language Control''"
  then have nd: "mode_checkbox_group r \<notin> {''Pre-trained Voice'', ''3s Rapid Cloning'', ''Cross-lingual Cloning''}"
    by simp
  obtain segs raised g' where gen:
    "inference_instruct env (tts_text r) (sft_dropdown r) (instruct_text r) (stream r) (speed r)
       (set_all_random_seed env (seed r)) = ((segs, raised), g')"
    by (metis surj_pair)
  note ga = generate_audio_default [OF nd gen, of g]
  have y: "yielded (check_instruct env r w) =
      replicate (count_list [instruct env = False, instruct_text r = []] True) (target_sr, default_data)" for w
    using m by (simp add: check_instruct_def yielded_append)
  have "output_chunks env r g =
      replicate (count_list [instruct env = False, instruct_text r = []] True) (target_sr, default_data)
        @ map (Pair target_sr) segs"
    unfolding output_chunks_def ga by (simp only: fst_conv yielded_append y yielded_map_Yield) simp
  moreover have "engine_calls env r g =
      [InferenceInstruct (tts_text r) (sft_dropdown r) (instruct_text r) (stream r) (speed r)]"
    by (simp add: engine_calls_def ga invoked_append invoked_check_instruct invoked_map_Yield)
  ultimately show "\<exists>segs raised g'.
         inference_instruct env (tts_text r) (sft_dropdown r) (instruct_text r) (stream r) (speed r)
           (set_all_random_seed env (seed r)) = ((segs, raised), g') \<and>
         output_chunks env r g =
           replicate (count_list [instruct env = False, instruct_text r = []] True)
             (target_sr, default_data) @ map (Pair target_sr) segs \<and>
         engine_calls env r g =
           [InferenceInstruct (tts_text r) (sft_dropdown r) (instruct_text r) (stream r) (speed r)]"
    using gen by blast
next
  assume ok: "snd (validation env r wav) = None"
  consider (nlc) "mode_checkbox_group r = ''Natural Language Control''"
    | (cl) "mode_checkbox_group r = ''Cross-lingual Cloning''"
    | (rc) "mode_checkbox_group r = ''3s Rapid Cloning''"
    | (other) "mode_checkbox_group r \<notin> {''Natural Language Control'', ''Cross-lingual Cloning'', ''3s Rapid Cloning''}"
    by auto
  then show "yielded (fst (validation env r wav)) =
        replicate (count_list (spec_fatal_conditions env r wav) True) (target_sr, default_data)"
  proof cases
    case nlc
    then show ?thesis
      by (simp add: validation_def Let_def check_instruct_def check_cross_lingual_def
          check_prompt_audio_def check_sft_def check_zero_shot_def spec_fatal_conditions_def
          yielded_append)
  next
    case cl
    then show ?thesis using ok
      by (cases wav)
        (auto simp add: validation_def Let_def check_instruct_def check_cross_lingual_def
          check_prompt_audio_def check_sft_def check_zero_shot_def spec_fatal_conditions_def
          yielded_append torchaudio_info_def split: sum.splits option.splits)
  next
    case rc
    then show ?thesis using ok
      by (cases wav)
        (auto simp add: validation_def Let_def check_instruct_def check_cross_lingual_def
          check_prompt_audio_def check_sft_def check_zero_shot_def spec_fatal_conditions_def
          yielded_append torchaudio_info_def split: sum.splits option.splits)
  next
    case other
    then show ?thesis
      by (simp add: validation_def Let_def check_instruct_def check_cross_lingual_def
          check_prompt_audio_def check_sft_def check_zero_shot_def spec_fatal_conditions_def)
  qed
next
  show "target_sr = 22050" by (simp only: target_sr_def)
next
  show "default_data = replicate 22050 0" by (rule default_data_zeros)
qed

theorem fatal_checks_independent_witness:
  "mode_checkbox_group (toy_request\<lparr>mode_checkbox_group := ''Natural Language Control''\<rparr>) =
     ''Natural Language Control'' \<and>
   output_chunks toy_env (toy_request\<lparr>mode_checkbox_group := ''Natural Language Control''\<rparr>) 0 =
     [(target_sr, default_data), (target_sr, default_data), (target_sr, [5, 2, 0, 42])] \<and>
   engine_calls toy_env (toy_request\<lparr>mode_checkbox_group := ''Natural Language Control''\<rparr>) 0 =
     [InferenceInstruct ''hello'' ''v1'' [] False 1] \<and>
   snd (validation toy_env
          (toy_request\<lparr>mode_checkbox_group := ''3s Rapid Cloning''\<rparr>) (Some ''clip8k.wav'')) = None \<and>
   yielded (fst (validation toy_env
          (toy_request\<lparr>mode_checkbox_group := ''3s Rapid Cloning''\<rparr>) (Some ''clip8k.wav''))) =
     [(target_sr, default_data), (target_sr, default_data)]"
  using fatal_checks_independent
      [of "toy_request\<lparr>mode_checkbox_group := ''Natural Language Control''\<rparr>" toy_env 0 None]
    fatal_checks_independent
      [of "toy_request\<lparr>mode_checkbox_group := ''3s Rapid Cloning''\<rparr>" toy_env 0 "Some ''clip8k.wav''"]
  by (simp add: run_defs toy_env_def toy_request_def prompt_sr_def)

text \<open>
  C10: for every mode string other than the three named in the branch conditions, the run is
  the Natural Language Control checks (empty for any other string), the log line, the seeding
  and the start of \<^verbatim>\<open>inference_instruct\<close> on the synthesis text, the selected voice and the
  instruct text, followed by one chunk per segment.
\<close>

theorem default_branch_instruct:
  assumes "mode_checkbox_group r \<notin> {''Pre-trained Voice'', ''3s Rapid Cloning'', ''Cross-lingual Cloning''}"
  shows "\<exists>segs raised g'.
     inference_instruct env (tts_text r) (sft_dropdown r) (instruct_text r) (stream r) (speed r)
       (set_all_random_seed env (seed r)) = ((segs, raised), g') \<and>
     generate_audio env r g =
       ((check_instruct env r (prompt_wav (prompt_wav_upload r) (prompt_wav_record r)) @
         [Logging ''Received instruct inference request'', SetSeed (seed r),
          Invoke (InferenceInstruct (tts_text r) (sft_dropdown r) (instruct_text r) (stream r) (speed r))] @
         map (\<lambda>s. Yield (target_sr, s)) segs, raised), g') \<and>
     engine_calls env r g =
       [InferenceInstruct (tts_text r) (sft_dropdown r) (instruct_text r) (stream r) (speed r)]"
proof -
  obtain segs raised g' where gen:
    "inference_instruct env (tts_text r) (sft_dropdown r) (instruct_text r) (stream r) (speed r)
       (set_all_random_seed env (seed r)) = ((segs, raised), g')"
    by (metis surj_pair)
  note ga = generate_audio_default [OF assms gen, of g]
  have calls: "engine_calls env r g =
      [InferenceInstruct (tts_text r) (sft_dropdown r) (instruct_text r) (stream r) (speed r)]"
    by (simp add: engine_calls_def ga invoked_append invoked_check_instruct invoked_map_Yield)
  show ?thesis using gen ga calls by blast
qed

theorem default_branch_instruct_witness:
  "mode_checkbox_group (toy_request\<lparr>mode_checkbox_group := ''Singing''\<rparr>) \<notin>
     {''Pre-trained Voice'', ''3s Rapid Cloning'', ''Cross-lingual Cloning''} \<and>
   generate_audio toy_env (toy_request\<lparr>mode_checkbox_group := ''Singing''\<rparr>) 0 =
     (([Logging ''Received instruct inference request'', SetSeed 42,
        Invoke (InferenceInstruct ''hello'' ''v1'' [] False 1),
        Yield (target_sr, [5, 2, 0, 42])], None), 43) \<and>
   engine_calls toy_env (toy_request\<lparr>mode_checkbox_group := ''Natural Language Control'',
       instruct_text := ''calm''\<rparr>) 0 =
     [InferenceInstruct ''hello'' ''v1'' ''calm'' False 1]"
  using default_branch_instruct [of "toy_request\<lparr>mode_checkbox_group := ''Singing''\<rparr>" toy_env 0]
    default_branch_instruct [of "toy_request\<lparr>mode_checkbox_group := ''Natural Language Control'',
       instruct_text := ''calm''\<rparr>" toy_env 0]
  by (simp add: run_defs toy_env_def toy_request_def)

end
